theory Spec2Isabelle
  imports Complex_Main "HOL-Library.Sublist"
begin

section \<open>JavaScript values used by the intelligence engine\<close>

text \<open>
  The engine computes on JavaScript numbers. They are modelled as exact reals: the
  constants of the source (0.4, 1.5, 0.05, ...) are the decimal fractions they denote and
  rounding errors of IEEE doubles are not modelled. A property that is absent from an
  object (or \<open>null\<close> where the source treats both alike) is \<open>None\<close>.

  \<open>Math.round\<close> rounds to the nearest integer, a tie towards plus infinity;
  \<open>Math.ceil\<close> rounds up.
\<close>

definition Math_round :: "real \<Rightarrow> int" where
  "Math_round x = \<lfloor>x + 1 / 2\<rfloor>"

definition Math_ceil :: "real \<Rightarrow> int" where
  "Math_ceil x = \<lceil>x\<rceil>"

text \<open>A destructuring default \<open>{ x = d } = obj\<close>: the default replaces an absent property.\<close>

definition dflt :: "'a \<Rightarrow> 'a option \<Rightarrow> 'a" where
  "dflt d v = (case v of None \<Rightarrow> d | Some x \<Rightarrow> x)"

text \<open>Errors the engine's code can raise on the inputs modelled here.\<close>

datatype error = TypeError | RangeError | DbFailure

section \<open>Objects the fusion service reads\<close>

text \<open>
  Several object shapes of the source share property names (\<open>soil_moisture\<close>,
  \<open>timestamp\<close>, \<open>thresholds\<close>, ...). Each shape is a record of its own and keeps the
  source's names; where two shapes share a name, the selector of the earlier record is
  written with the record's name in front (\<open>sensorData.soil_moisture\<close>).
\<close>

text \<open>A sensor reading: the live override of a request, or the latest stored reading.\<close>

record sensorData =
  soil_moisture :: "real option"
  temperature :: "real option"
  humidity :: "real option"
  rain_detected :: "bool option"

text \<open>
  An entry of the history buffer:
  \<open>{ ...sensorData, pump_on: meta.pumpOn || false, timestamp: ... }\<close>.
\<close>

record historyEntry = sensorData +
  pump_on :: bool
  timestamp :: int

record ingestMeta =
  pumpOn :: "bool option"
  pumpMode :: "string option"

text \<open>A threshold set \<open>{ min, max, critical_low }\<close> and a table of them by growth stage.\<close>

record threshold_set =
  min_th :: real
  max_th :: real
  critical_low :: real

type_synonym threshold_table = "string \<rightharpoonup> threshold_set"

text \<open>The crop configuration of a farm, as the config store returns it.\<close>

record cropConfig =
  farm_id :: string
  crop_type :: "string option"
  soil_type :: "string option"
  growth_stage :: "string option"
  thresholds :: "threshold_table option"
  coordinates :: "(real \<times> real) option"
  field_area_sqm :: "real option"
  sprinkler_flow_rate_lpm :: "real option"

text \<open>Of an NDVI record and of an irrigation log record the engine reads one property each.\<close>

record ndviDoc =
  ndvi_value :: real

record irrigationDoc =
  liters_used :: "real option"

record irrigationStats =
  totalLitersUsed :: "real option"
  irrigationCount :: "nat option"
  daysPeriod :: "real option"

text \<open>The snapshot of the field state that a report carries.\<close>

record fieldSnapshot =
  soilMoisture :: "real option"
  temperature :: "real option"
  humidity :: "real option"
  rainDetected :: "bool option"
  ndvi :: "real option"
  cropType :: string
  growthStage :: "string option"
  pumpOn :: "bool option"

section \<open>intelligence.utils.js: threshold table\<close>

definition DEFAULT_THRESHOLDS :: threshold_table where
  "DEFAULT_THRESHOLDS = map_of
     [(''germination'', \<lparr>min_th = 60, max_th = 80, critical_low = 50\<rparr>),
      (''seedling'', \<lparr>min_th = 55, max_th = 75, critical_low = 45\<rparr>),
      (''vegetative'', \<lparr>min_th = 45, max_th = 70, critical_low = 35\<rparr>),
      (''flowering'', \<lparr>min_th = 50, max_th = 75, critical_low = 40\<rparr>),
      (''fruiting'', \<lparr>min_th = 45, max_th = 70, critical_low = 35\<rparr>),
      (''maturity'', \<lparr>min_th = 35, max_th = 60, critical_low = 25\<rparr>),
      (''harvest'', \<lparr>min_th = 20, max_th = 45, critical_low = 15\<rparr>)]"

text \<open>
  A threshold table is a plain object, so \<open>thresholds[stage]\<close> also finds the members
  every object inherits from \<open>Object.prototype\<close>. Such a member is a function (or, for
  \<open>__proto__\<close>, the prototype object): it is truthy and has no \<open>min\<close>, \<open>max\<close>
  or \<open>critical_low\<close>. The result of a lookup is therefore one of three things.
\<close>

datatype resolved = Undefined | Entry threshold_set | Inherited

definition object_prototype_names :: "string list" where
  "object_prototype_names =
     [''constructor'', ''__defineGetter__'', ''__defineSetter__'', ''hasOwnProperty'',
      ''__lookupGetter__'', ''__lookupSetter__'', ''isPrototypeOf'',
      ''propertyIsEnumerable'', ''toString'', ''valueOf'', ''__proto__'',
      ''toLocaleString'']"

definition js_get :: "threshold_table \<Rightarrow> string \<Rightarrow> resolved" where
  "js_get tbl k =
     (case tbl k of
        Some t \<Rightarrow> Entry t
      | None \<Rightarrow> if k \<in> set object_prototype_names then Inherited else Undefined)"

text \<open>
  \<open>const thresholds = customThresholds || DEFAULT_THRESHOLDS;
   return thresholds[stage] || thresholds.vegetative;\<close>
\<close>

definition getThresholds :: "string \<Rightarrow> threshold_table option \<Rightarrow> resolved" where
  "getThresholds stage customThresholds =
     (let thresholds = (case customThresholds of None \<Rightarrow> DEFAULT_THRESHOLDS | Some c \<Rightarrow> c)
      in case js_get thresholds stage of
           Undefined \<Rightarrow> js_get thresholds ''vegetative''
         | v \<Rightarrow> v)"

section \<open>intelligence.utils.js: field state\<close>

text \<open>
  The unified field state, with the fields \<open>buildFieldState\<close> writes. Every field the
  utilities destructure with a default, or test for absence, is optional.
\<close>

record fieldState =
  farm_id :: string
  soil_moisture :: "real option"
  temperature :: "real option"
  humidity :: "real option"
  rain_detected :: "bool option"
  rain_forecast :: "bool option"
  ndvi :: "real option"
  crop_type :: string
  soil_type :: string
  growth_stage :: "string option"
  thresholds :: "threshold_table option"
  pump_on :: "bool option"
  field_area_sqm :: "real option"
  sprinkler_flow_rate :: "real option"
  last_irrigation_hours :: "real option"
  coordinates :: "real \<times> real"

section \<open>intelligence.utils.js: drying-rate prediction\<close>

text \<open>
  \<open>estimateDryingTime(currentMoisture, targetMoisture, temperature = 30, humidity = 50)\<close>.
  The effective drying rate is at least \<open>1.5 * 0.3\<close>, so the division is defined.
\<close>

definition estimateDryingTime :: "real \<Rightarrow> real \<Rightarrow> real option \<Rightarrow> real option \<Rightarrow> int" where
  "estimateDryingTime currentMoisture targetMoisture temperature_arg humidity_arg =
     (let temperature' = dflt 30 temperature_arg;
          humidity' = dflt 50 humidity_arg
      in if currentMoisture \<le> targetMoisture then 0
         else
           let etFactor = (temperature' / 30) * ((100 - humidity') / 50);
               baseDryingRate = 1.5;
               effectiveDryingRate = baseDryingRate * max 0.3 etFactor;
               moistureToDrop = currentMoisture - targetMoisture
           in max 1 (Math_round (moistureToDrop / effectiveDryingRate)))"

text \<open>\<open>computeIrrigationTime(waterQuantityLiters, flowRateLPM = 15)\<close>\<close>

definition computeIrrigationTime :: "real \<Rightarrow> real option \<Rightarrow> int" where
  "computeIrrigationTime waterQuantityLiters flowRateLPM_arg =
     (let flowRateLPM = dflt 15 flowRateLPM_arg
      in if waterQuantityLiters \<le> 0 \<or> flowRateLPM \<le> 0 then 0
         else Math_ceil (waterQuantityLiters / flowRateLPM))"

section \<open>intelligence.utils.js: crop stress risk score\<close>

text \<open>
  The four sub-scores are the local variables of \<open>calculateCropStressRisk\<close>. When the
  resolved thresholds are an inherited member, \<open>thresholds.critical_low\<close>,
  \<open>thresholds.min\<close> and \<open>thresholds.max\<close> are \<open>undefined\<close> and every comparison
  with them is false, which leaves the moisture stress at 0.
\<close>

definition moistureStress :: "resolved \<Rightarrow> real \<Rightarrow> real" where
  "moistureStress th soil_moisture' =
     (case th of
        Entry t \<Rightarrow>
          if soil_moisture' < critical_low t then 100
          else if soil_moisture' < min_th t then
            50 + ((min_th t - soil_moisture') / (min_th t - critical_low t)) * 50
          else if soil_moisture' > max_th t then
            min 40 (((soil_moisture' - max_th t) / 20) * 40)
          else 0
      | _ \<Rightarrow> 0)"

definition tempStress :: "real \<Rightarrow> real" where
  "tempStress temperature' =
     (if temperature' > 42 then 100
      else if temperature' > 38 then 60 + ((temperature' - 38) / 4) * 40
      else if temperature' > 35 then 30 + ((temperature' - 35) / 3) * 30
      else if temperature' < 5 then 80
      else if temperature' < 10 then 30
      else 0)"

definition ndviStress :: "real \<Rightarrow> real" where
  "ndviStress ndvi' =
     (if ndvi' < 0.2 then 100
      else if ndvi' < 0.3 then 60 + ((0.3 - ndvi') / 0.1) * 40
      else if ndvi' < 0.5 then 20 + ((0.5 - ndvi') / 0.2) * 40
      else if ndvi' > 0.7 then 0
      else max 0 ((0.7 - ndvi') / 0.2 * 20))"

definition humidityStress :: "real \<Rightarrow> real" where
  "humidityStress humidity' =
     (if humidity' < 20 then 80
      else if humidity' < 30 then 40
      else if humidity' > 90 then 30
      else 0)"

text \<open>
  Reading \<open>thresholds.critical_low\<close> raises a TypeError when the lookup gave
  \<open>undefined\<close>; the read is the first thing the function does with the thresholds.
\<close>

definition calculateCropStressRisk :: "fieldState \<Rightarrow> error + int" where
  "calculateCropStressRisk fs =
     (let soil_moisture' = dflt 50 (soil_moisture fs);
          temperature' = dflt 28 (temperature fs);
          humidity' = dflt 60 (humidity fs);
          ndvi' = dflt 0.5 (ndvi fs);
          growth_stage' = dflt ''vegetative'' (growth_stage fs);
          th = getThresholds growth_stage' (thresholds fs)
      in if th = Undefined then Inl TypeError
         else
           let riskScore =
                 moistureStress th soil_moisture' * 0.4 +
                 tempStress temperature' * 0.2 +
                 ndviStress ndvi' * 0.25 +
                 humidityStress humidity' * 0.15
           in Inr (Math_round (min 100 (max 0 riskScore))))"

section \<open>intelligence.utils.js: irrigation decision engine\<close>

datatype irrigation_action = START | STOP | DELAY

text \<open>\<open>NORMAL\<close> is the priority of the static default report only.\<close>

datatype irrigation_priority = HIGH | MEDIUM | LOW | NORMAL

text \<open>
  The reason is a template string of the source; a constructor stands for the template
  and carries the values interpolated into it, in the order they appear.
\<close>

datatype decision_reason =
    RainDetected
  | RainForecast
  | CriticalDeficit real real string
  | BelowThresholdPoorNDVI real
  | BelowOptimal real real real
  | MoistureOkPoorNDVI real real
  | MoistureAdequate real int
  | AboveMaximum real "real option"
  | EngineInitializing

record irrigationDecision =
  action :: irrigation_action
  priority :: irrigation_priority
  waterQuantityLiters :: int
  reason :: decision_reason
  delayHours :: int

text \<open>
  The rule cascade. The thresholds are resolved first but read only from rule 2 on, so
  the two rain rules return before an \<open>undefined\<close> lookup can raise. With an inherited
  member every threshold comparison is false and the cascade falls through to rule 5.
\<close>

definition generateIrrigationDecision :: "fieldState \<Rightarrow> error + irrigationDecision" where
  "generateIrrigationDecision fs =
     (let soil_moisture' = dflt 50 (soil_moisture fs);
          temperature' = dflt 28 (temperature fs);
          humidity' = dflt 60 (humidity fs);
          rain_detected' = dflt False (rain_detected fs);
          rain_forecast' = dflt False (rain_forecast fs);
          ndvi' = dflt 0.5 (ndvi fs);
          growth_stage' = dflt ''vegetative'' (growth_stage fs);
          field_area_sqm' = dflt 1000 (field_area_sqm fs);
          th = getThresholds growth_stage' (thresholds fs)
      in if rain_detected' then
           Inr \<lparr>action = STOP, priority = LOW, waterQuantityLiters = 0,
                reason = RainDetected, delayHours = 6\<rparr>
         else if rain_forecast' then
           Inr \<lparr>action = DELAY, priority = LOW, waterQuantityLiters = 0,
                reason = RainForecast, delayHours = 4\<rparr>
         else
           case th of
             Undefined \<Rightarrow> Inl TypeError
           | Inherited \<Rightarrow>
               Inr \<lparr>action = STOP, priority = LOW, waterQuantityLiters = 0,
                    reason = AboveMaximum soil_moisture' None, delayHours = 8\<rparr>
           | Entry t \<Rightarrow>
               if soil_moisture' < critical_low t then
                 let deficit = min_th t - soil_moisture'
                 in Inr \<lparr>action = START, priority = HIGH,
                         waterQuantityLiters =
                           Math_round ((deficit / 100) * field_area_sqm' * 0.6),
                         reason = CriticalDeficit soil_moisture' (critical_low t) growth_stage',
                         delayHours = 0\<rparr>
               else if soil_moisture' < min_th t then
                 let deficit = min_th t - soil_moisture'
                 in Inr \<lparr>action = START,
                         priority = (if ndvi' < 0.4 then HIGH else MEDIUM),
                         waterQuantityLiters =
                           Math_round ((deficit / 100) * field_area_sqm' * 0.5),
                         reason = (if ndvi' < 0.4 then BelowThresholdPoorNDVI ndvi'
                                   else BelowOptimal soil_moisture' (min_th t) ndvi'),
                         delayHours = 0\<rparr>
               else if soil_moisture' \<ge> min_th t \<and> soil_moisture' \<le> max_th t then
                 if ndvi' < 0.3 then
                   Inr \<lparr>action = DELAY, priority = MEDIUM, waterQuantityLiters = 0,
                        reason = MoistureOkPoorNDVI soil_moisture' ndvi', delayHours = 2\<rparr>
                 else
                   let hoursUntilDry =
                         estimateDryingTime soil_moisture' (min_th t)
                           (Some temperature') (Some humidity');
                       delayHours' = Math_round (of_int hoursUntilDry)
                   in Inr \<lparr>action = DELAY, priority = LOW, waterQuantityLiters = 0,
                           reason = MoistureAdequate soil_moisture' delayHours',
                           delayHours = delayHours'\<rparr>
               else
                 Inr \<lparr>action = STOP, priority = LOW, waterQuantityLiters = 0,
                      reason = AboveMaximum soil_moisture' (Some (max_th t)), delayHours = 8\<rparr>)"

section \<open>intelligence.utils.js: anomaly detection\<close>

datatype anomaly_type =
  PUMP_ANOMALY | SENSOR_FAILURE | WATERLOGGING | NDVI_MOISTURE_CONFLICT | HEAT_STRESS | FROST_RISK

datatype alert_severity = low | medium | high

text \<open>The message templates, with the values interpolated into them.\<close>

datatype alert_message =
    MotorOnMoistureNotIncreasing
  | TemperatureAndHumidityZero
  | MoistureCriticallyHigh real
  | HighMoistureLowNDVI real real
  | ExtremeHeat real
  | NearFreezing real

record anomalyAlert =
  alert_type :: anomaly_type
  severity :: alert_severity
  message :: alert_message
  timestamp :: int

text \<open>
  The checks destructure the field state without defaults. A comparison with an absent
  (\<open>undefined\<close>) operand is false, and so is a comparison with the not-a-number that
  subtracting an absent operand gives: an absent value pushes no alert.
\<close>

text \<open>
  Check 1: the pump is on and the history has at least 3 entries; \<open>recent\<close> is
  \<open>sensorHistory.slice(-3)\<close> and the change is taken from its first to its last entry.
\<close>

definition pump_check :: "fieldState \<Rightarrow> historyEntry list \<Rightarrow> int \<Rightarrow> anomalyAlert list" where
  "pump_check fs sensorHistory now =
     (if dflt False (pump_on fs) \<and> length sensorHistory \<ge> 3 then
        let recent = drop (length sensorHistory - 3) sensorHistory
        in case sensorData.soil_moisture (recent ! (length recent - 1)) of
             None \<Rightarrow> []
           | Some newest \<Rightarrow>
               (case sensorData.soil_moisture (recent ! 0) of
                  None \<Rightarrow> []
                | Some oldest \<Rightarrow>
                    let moistureChange = newest - oldest
                    in if moistureChange < 2 then
                         [\<lparr>alert_type = PUMP_ANOMALY, severity = high,
                           message = MotorOnMoistureNotIncreasing, timestamp = now\<rparr>]
                       else [])
      else [])"

definition sensor_check :: "fieldState \<Rightarrow> int \<Rightarrow> anomalyAlert list" where
  "sensor_check fs now =
     (if temperature fs = Some 0 \<and> humidity fs = Some 0 then
        [\<lparr>alert_type = SENSOR_FAILURE, severity = medium,
          message = TemperatureAndHumidityZero, timestamp = now\<rparr>]
      else [])"

definition waterlogging_check :: "fieldState \<Rightarrow> int \<Rightarrow> anomalyAlert list" where
  "waterlogging_check fs now =
     (case soil_moisture fs of
        None \<Rightarrow> []
      | Some soil_moisture' \<Rightarrow>
          if soil_moisture' > 95 then
            [\<lparr>alert_type = WATERLOGGING, severity = high,
              message = MoistureCriticallyHigh soil_moisture', timestamp = now\<rparr>]
          else [])"

definition ndvi_check :: "fieldState \<Rightarrow> int \<Rightarrow> anomalyAlert list" where
  "ndvi_check fs now =
     (case ndvi fs of
        None \<Rightarrow> []
      | Some ndvi' \<Rightarrow>
          (case soil_moisture fs of
             None \<Rightarrow> []
           | Some soil_moisture' \<Rightarrow>
               if soil_moisture' > 60 \<and> ndvi' < 0.25 then
                 [\<lparr>alert_type = NDVI_MOISTURE_CONFLICT, severity = medium,
                   message = HighMoistureLowNDVI soil_moisture' ndvi', timestamp = now\<rparr>]
               else []))"

definition heat_check :: "fieldState \<Rightarrow> int \<Rightarrow> anomalyAlert list" where
  "heat_check fs now =
     (case temperature fs of
        None \<Rightarrow> []
      | Some temperature' \<Rightarrow>
          if temperature' > 42 then
            [\<lparr>alert_type = HEAT_STRESS, severity = high,
              message = ExtremeHeat temperature', timestamp = now\<rparr>]
          else [])"

definition frost_check :: "fieldState \<Rightarrow> int \<Rightarrow> anomalyAlert list" where
  "frost_check fs now =
     (case temperature fs of
        None \<Rightarrow> []
      | Some temperature' \<Rightarrow>
          if temperature' < 2 then
            [\<lparr>alert_type = FROST_RISK, severity = high,
              message = NearFreezing temperature', timestamp = now\<rparr>]
          else [])"

text \<open>
  \<open>detectAnomalies(fieldState, sensorHistory = [])\<close>: \<open>alerts\<close> starts empty and each
  of the six checks pushes at most one alert onto it, in this order. \<open>now\<close> is the clock
  that stamps the alerts.
\<close>

definition detectAnomalies :: "fieldState \<Rightarrow> historyEntry list \<Rightarrow> int \<Rightarrow> anomalyAlert list" where
  "detectAnomalies fs sensorHistory now =
     pump_check fs sensorHistory now @ sensor_check fs now @ waterlogging_check fs now @
     ndvi_check fs now @ heat_check fs now @ frost_check fs now"

section \<open>intelligence.utils.js: water saving potential\<close>

datatype efficiency_rating = Excellent | Good | Fair | NeedsImprovement | RatingInitializing

text \<open>The static default report fills in \<open>savingPercent\<close> and \<open>efficiencyRating\<close> only.\<close>

record waterSavings =
  savingPercent :: int
  litersPerDay :: "int option"
  floodEquivalentLitersPerDay :: "real option"
  totalSavedLiters :: "int option"
  costSavedINR :: "int option"
  irrigationCount :: "nat option"
  efficiencyRating :: efficiency_rating

definition calculateWaterSavings :: "fieldState \<Rightarrow> irrigationStats \<Rightarrow> waterSavings" where
  "calculateWaterSavings fs stats =
     (let field_area_sqm' = dflt 1000 (field_area_sqm fs);
          totalLitersUsed' = dflt 0 (totalLitersUsed stats);
          irrigationCount' = dflt 0 (irrigationStats.irrigationCount stats);
          daysPeriod' = dflt 7 (daysPeriod stats);
          floodDailyLiters = field_area_sqm' * 6;
          floodTotalLiters = floodDailyLiters * daysPeriod';
          actualDailyLiters = (if daysPeriod' > 0 then totalLitersUsed' / daysPeriod' else 0);
          savingLiters = max 0 (floodTotalLiters - totalLitersUsed');
          savingPercent' =
            (if floodTotalLiters > 0 then Math_round ((savingLiters / floodTotalLiters) * 100)
             else 0);
          costSavedINR' = Math_round (savingLiters * 0.05)
      in \<lparr>savingPercent = savingPercent',
          litersPerDay = Some (Math_round actualDailyLiters),
          floodEquivalentLitersPerDay = Some floodDailyLiters,
          totalSavedLiters = Some (Math_round savingLiters),
          costSavedINR = Some costSavedINR',
          irrigationCount = Some irrigationCount',
          efficiencyRating =
            (if savingPercent' > 50 then Excellent
             else if savingPercent' > 30 then Good
             else if savingPercent' > 10 then Fair
             else NeedsImprovement)\<rparr>)"

section \<open>The fusion service: reports\<close>

datatype stress_level = CRITICAL | MODERATE | LOW_STRESS

text \<open>The four descriptions of \<open>getCropStressDescription\<close> and the one of the default report.\<close>

datatype stress_description =
  SevereStress | ModerateStress | MildStress | HealthExcellent | NoDataAvailable

datatype health_status = WARNING | MONITOR | HEALTHY | INITIALIZING

datatype ndvi_trend = improving | declining | stable | unknown

datatype trend_description =
    NotEnoughData
  | NdviImproving real
  | NdviDeclining real
  | NdviStable
  | UnableToCompute
  | NoDataYet

datatype report_source = computed | cache | error_fallback | default_source

text \<open>
  The decision of a report is the engine's decision together with the irrigation time.
\<close>

record reportDecision = irrigationDecision +
  irrigationTimeMinutes :: int

record cropStressRisk =
  score :: int
  level :: stress_level
  description :: stress_description

record nextIrrigationTimer =
  hoursUntilNeeded :: int
  estimatedTime :: int

record systemHealth =
  alertCount :: nat
  alerts :: "anomalyAlert list"
  overallStatus :: health_status

record ndviInsights =
  currentNDVI :: "real option"
  trend :: ndvi_trend
  trendDescription :: trend_description

text \<open>
  A report. \<open>source\<close> and \<open>stale\<close> are absent from the report that is composed and
  cached; they are added to the copy that is returned.
\<close>

record report =
  farmId :: string
  timestamp :: int
  irrigationDecision :: reportDecision
  cropStressRisk :: cropStressRisk
  nextIrrigationTimer :: nextIrrigationTimer
  systemHealth :: systemHealth
  waterSavingPotential :: waterSavings
  ndviInsights :: ndviInsights
  fieldSnapshot :: "fieldSnapshot option"
  source :: "report_source option"
  stale :: "bool option"

section \<open>The fusion service: state and collaborators\<close>

text \<open>An entry of \<open>decisionCache\<close>: \<open>{ data: report, timestamp: Date.now() }\<close>.\<close>

record cacheEntry =
  data :: report
  timestamp :: int

text \<open>The two module-level maps, keyed by farm id.\<close>

record engine =
  decisionCache :: "string \<rightharpoonup> cacheEntry"
  sensorHistoryBuffers :: "string \<rightharpoonup> historyEntry list"

definition CACHE_TTL_MS :: int where
  "CACHE_TTL_MS = 60000"

definition MAX_HISTORY :: nat where
  "MAX_HISTORY = 20"

text \<open>A query to a store either rejects or resolves to its result.\<close>

datatype 'a outcome = Rejected | Resolved 'a

text \<open>
  What the collaborators answer during one call of the service for one farm, and what the
  clock reads at each place the call reads it (milliseconds): at the cache check, when the
  alerts are stamped (one synchronous run, one reading), at the report's timestamp, at the
  estimated time, when the report is stored, and at the two dates of the default report.
  A call is modelled as one step: no other call runs between its \<open>await\<close>s.
\<close>

record world =
  CropConfig_findOne :: "cropConfig option outcome"
  CropConfig_create :: "cropConfig outcome"
  CropConfig_findOneAndUpdate :: "cropConfig outcome"
  NdviHistory_findOne :: "ndviDoc option outcome"
  Sensor_findOne :: "sensorData option outcome"
  IrrigationHistory_find :: "irrigationDoc list outcome"
  NdviHistory_find :: "ndviDoc list outcome"
  now_check :: int
  now_alerts :: int
  now_report :: int
  now_timer :: int
  now_store :: int
  now_default :: int
  now_default_timer :: int

section \<open>The fusion service: data fusion\<close>

text \<open>\<open>a ?? b\<close> on two optional values, and \<open>v || d\<close> on a string and on a number.\<close>

definition nullish :: "'a option \<Rightarrow> 'a option \<Rightarrow> 'a option" where
  "nullish a b = (case a of None \<Rightarrow> b | Some x \<Rightarrow> Some x)"

definition or_string :: "string option \<Rightarrow> string \<Rightarrow> string" where
  "or_string v d = (case v of None \<Rightarrow> d | Some s \<Rightarrow> if s = [] then d else s)"

definition or_number :: "real option \<Rightarrow> real \<Rightarrow> real" where
  "or_number v d = (case v of None \<Rightarrow> d | Some x \<Rightarrow> if x = 0 then d else x)"

text \<open>The configuration \<open>getCropConfig\<close> returns when the config store rejects.\<close>

definition fallbackCropConfig :: "string \<Rightarrow> cropConfig" where
  "fallbackCropConfig farmId' =
     \<lparr>cropConfig.farm_id = farmId', cropConfig.crop_type = Some ''Wheat'',
      cropConfig.soil_type = Some ''Loamy'', cropConfig.growth_stage = Some ''vegetative'',
      cropConfig.thresholds = None, cropConfig.coordinates = Some (28.6139, 77.209),
      cropConfig.field_area_sqm = Some 1000, sprinkler_flow_rate_lpm = Some 15\<rparr>"

definition getCropConfig :: "world \<Rightarrow> string \<Rightarrow> cropConfig" where
  "getCropConfig w farmId' =
     (case CropConfig_findOne w of
        Rejected \<Rightarrow> fallbackCropConfig farmId'
      | Resolved (Some config) \<Rightarrow> config
      | Resolved None \<Rightarrow>
          (case CropConfig_create w of
             Rejected \<Rightarrow> fallbackCropConfig farmId'
           | Resolved config \<Rightarrow> config))"

definition getLatestSensor :: "world \<Rightarrow> sensorData option" where
  "getLatestSensor w = (case Sensor_findOne w of Rejected \<Rightarrow> None | Resolved r \<Rightarrow> r)"

definition getLatestNDVI :: "world \<Rightarrow> ndviDoc option" where
  "getLatestNDVI w = (case NdviHistory_findOne w of Rejected \<Rightarrow> None | Resolved r \<Rightarrow> r)"

text \<open>
  \<open>buildFieldState\<close>. \<open>sensor\<close> is \<open>liveSensorData || latestSensor || {}\<close> and
  \<open>latestHistoryEntry\<close> is the last entry of the farm's buffer or \<open>{}\<close>; an empty object
  has every property absent.
\<close>

definition buildFieldState :: "engine \<Rightarrow> world \<Rightarrow> string \<Rightarrow> sensorData option \<Rightarrow> fieldState" where
  "buildFieldState st w farmId' liveSensorData =
     (let cropConfig = getCropConfig w farmId';
          latestNDVI = getLatestNDVI w;
          latestSensor = (case liveSensorData of Some _ \<Rightarrow> None | None \<Rightarrow> getLatestSensor w);
          sensor = (case liveSensorData of Some d \<Rightarrow> Some d | None \<Rightarrow> latestSensor);
          sensorHistory = dflt [] (sensorHistoryBuffers st farmId');
          latestHistoryEntry = (if sensorHistory = [] then None else Some (last sensorHistory))
      in \<lparr>farm_id = farmId',
          soil_moisture =
            Some (dflt 50 (nullish (Option.bind sensor sensorData.soil_moisture)
                                   (Option.bind latestHistoryEntry sensorData.soil_moisture))),
          temperature =
            Some (dflt 28 (nullish (Option.bind sensor sensorData.temperature)
                                   (Option.bind latestHistoryEntry sensorData.temperature))),
          humidity =
            Some (dflt 60 (nullish (Option.bind sensor sensorData.humidity)
                                   (Option.bind latestHistoryEntry sensorData.humidity))),
          rain_detected = Some (dflt False (Option.bind sensor sensorData.rain_detected)),
          rain_forecast = Some False,
          ndvi = Some (case latestNDVI of None \<Rightarrow> 0.5 | Some d \<Rightarrow> ndvi_value d),
          crop_type = or_string (cropConfig.crop_type cropConfig) ''Wheat'',
          soil_type = or_string (cropConfig.soil_type cropConfig) ''Loamy'',
          growth_stage = Some (or_string (cropConfig.growth_stage cropConfig) ''vegetative''),
          thresholds = cropConfig.thresholds cropConfig,
          pump_on =
            Some (case latestHistoryEntry of None \<Rightarrow> False | Some e \<Rightarrow> historyEntry.pump_on e),
          field_area_sqm = Some (or_number (cropConfig.field_area_sqm cropConfig) 1000),
          sprinkler_flow_rate = Some (or_number (sprinkler_flow_rate_lpm cropConfig) 15),
          last_irrigation_hours = Some 24,
          coordinates = dflt (28.6139, 77.209) (cropConfig.coordinates cropConfig)\<rparr>)"

definition getIrrigationStats :: "world \<Rightarrow> irrigationStats" where
  "getIrrigationStats w =
     (case IrrigationHistory_find w of
        Rejected \<Rightarrow>
          \<lparr>totalLitersUsed = Some 0, irrigationStats.irrigationCount = Some 0,
           daysPeriod = Some 7\<rparr>
      | Resolved records \<Rightarrow>
          \<lparr>totalLitersUsed = Some (foldl (\<lambda>sum r. sum + or_number (liters_used r) 0) 0 records),
           irrigationStats.irrigationCount = Some (length records),
           daysPeriod = Some 7\<rparr>)"

text \<open>
  \<open>getNDVITrend\<close>: the records are the query's answer, newest first, at most 5 of them.
\<close>

definition getNDVITrend :: "world \<Rightarrow> ndvi_trend \<times> trend_description" where
  "getNDVITrend w =
     (case NdviHistory_find w of
        Rejected \<Rightarrow> (unknown, UnableToCompute)
      | Resolved records \<Rightarrow>
          if length records < 2 then (stable, NotEnoughData)
          else
            let latest = ndvi_value (records ! 0);
                previous = ndvi_value (records ! (length records - 1));
                change = latest - previous
            in if change > 0.05 then (improving, NdviImproving change)
               else if change < - 0.05 then (declining, NdviDeclining change)
               else (stable, NdviStable))"

text \<open>The service's own copy of the threshold lookup, with its own copy of the table.\<close>

definition stage_defaults :: threshold_table where
  "stage_defaults = map_of
     [(''germination'', \<lparr>min_th = 60, max_th = 80, critical_low = 50\<rparr>),
      (''seedling'', \<lparr>min_th = 55, max_th = 75, critical_low = 45\<rparr>),
      (''vegetative'', \<lparr>min_th = 45, max_th = 70, critical_low = 35\<rparr>),
      (''flowering'', \<lparr>min_th = 50, max_th = 75, critical_low = 40\<rparr>),
      (''fruiting'', \<lparr>min_th = 45, max_th = 70, critical_low = 35\<rparr>),
      (''maturity'', \<lparr>min_th = 35, max_th = 60, critical_low = 25\<rparr>),
      (''harvest'', \<lparr>min_th = 20, max_th = 45, critical_low = 15\<rparr>)]"

definition getStageThresholds :: "string \<Rightarrow> threshold_table option \<Rightarrow> resolved" where
  "getStageThresholds stage customThresholds =
     (let thresholds = (case customThresholds of None \<Rightarrow> stage_defaults | Some c \<Rightarrow> c)
      in case js_get thresholds stage of
           Undefined \<Rightarrow> js_get thresholds ''vegetative''
         | v \<Rightarrow> v)"

definition getCropStressDescription :: "int \<Rightarrow> stress_description" where
  "getCropStressDescription score' =
     (if score' > 70 then SevereStress
      else if score' > 40 then ModerateStress
      else if score' > 20 then MildStress
      else HealthExcellent)"

definition getDefaultReport :: "string \<Rightarrow> world \<Rightarrow> report" where
  "getDefaultReport farmId' w =
     \<lparr>farmId = farmId',
      report.timestamp = now_default w,
      irrigationDecision =
        \<lparr>action = DELAY, priority = NORMAL, waterQuantityLiters = 0,
         reason = EngineInitializing, delayHours = 1, irrigationTimeMinutes = 0\<rparr>,
      cropStressRisk = \<lparr>score = 0, level = LOW_STRESS, description = NoDataAvailable\<rparr>,
      nextIrrigationTimer =
        \<lparr>hoursUntilNeeded = 1, estimatedTime = now_default_timer w + 3600000\<rparr>,
      systemHealth = \<lparr>alertCount = 0, alerts = [], overallStatus = INITIALIZING\<rparr>,
      waterSavingPotential =
        \<lparr>savingPercent = 0, litersPerDay = None, floodEquivalentLitersPerDay = None,
         totalSavedLiters = None, costSavedINR = None, irrigationCount = None,
         efficiencyRating = RatingInitializing\<rparr>,
      ndviInsights = \<lparr>currentNDVI = None, trend = unknown, trendDescription = NoDataYet\<rparr>,
      fieldSnapshot = None,
      source = Some default_source,
      stale = None\<rparr>"

section \<open>The fusion service: the report\<close>

text \<open>
  The body of the \<open>try\<close> block of \<open>getIntelligenceReport\<close> after a cache miss, up to the
  composed report (steps 1 to 8). Its results are \<open>Inl\<close> for an exception and \<open>Inr\<close>
  for the report. On the inputs modelled here it can raise in three places:
  \<^item> \<open>generateIrrigationDecision\<close> and \<open>calculateCropStressRisk\<close> read a property of
    \<open>undefined\<close> thresholds (TypeError);
  \<^item> step 5 destructures \<open>{ min }\<close> from \<open>undefined\<close> thresholds (TypeError);
  \<^item> when the current moisture or the minimum is absent, \<open>estimateDryingTime\<close> yields
    not-a-number hours, the estimated time is an invalid date and \<open>toISOString\<close> raises
    a RangeError. Nothing between step 5 and the composition has an effect, so the model
    raises it at step 5.
  A property key that is \<open>undefined\<close> reads the property named "undefined".
\<close>

definition composeReport :: "engine \<Rightarrow> world \<Rightarrow> string \<Rightarrow> sensorData option \<Rightarrow> error + report" where
  "composeReport st w farmId' liveSensorData =
     (let fieldState = buildFieldState st w farmId' liveSensorData
      in case generateIrrigationDecision fieldState of
           Inl e \<Rightarrow> Inl e
         | Inr irrigationDecision' \<Rightarrow>
      (case calculateCropStressRisk fieldState of
           Inl e \<Rightarrow> Inl e
         | Inr cropStressRisk' \<Rightarrow>
      (let sensorHistory = dflt [] (sensorHistoryBuffers st farmId');
           anomalyAlerts = detectAnomalies fieldState sensorHistory (now_alerts w)
       in case getStageThresholds (dflt ''undefined'' (growth_stage fieldState))
                 (thresholds fieldState) of
            Undefined \<Rightarrow> Inl TypeError
          | stageThresholds \<Rightarrow>
      (let thresholdMin = (case stageThresholds of Entry t \<Rightarrow> Some (min_th t) | _ \<Rightarrow> None)
       in case (soil_moisture fieldState, thresholdMin) of
            (Some soil_moisture', Some thresholdMin') \<Rightarrow>
              (let hoursUntilDry =
                     estimateDryingTime soil_moisture' thresholdMin'
                       (temperature fieldState) (humidity fieldState);
                   irrigationTimeMins =
                     computeIrrigationTime (of_int (waterQuantityLiters irrigationDecision'))
                       (sprinkler_flow_rate fieldState);
                   irrigationStats = getIrrigationStats w;
                   waterSavings = calculateWaterSavings fieldState irrigationStats;
                   ndviTrend = getNDVITrend w
               in Inr
                    \<lparr>farmId = farmId',
                     report.timestamp = now_report w,
                     irrigationDecision =
                       \<lparr>action = action irrigationDecision',
                        priority = priority irrigationDecision',
                        waterQuantityLiters = waterQuantityLiters irrigationDecision',
                        reason = reason irrigationDecision',
                        delayHours = delayHours irrigationDecision',
                        irrigationTimeMinutes = irrigationTimeMins\<rparr>,
                     cropStressRisk =
                       \<lparr>score = cropStressRisk',
                        level =
                          (if cropStressRisk' > 70 then CRITICAL
                           else if cropStressRisk' > 40 then MODERATE
                           else LOW_STRESS),
                        description = getCropStressDescription cropStressRisk'\<rparr>,
                     nextIrrigationTimer =
                       \<lparr>hoursUntilNeeded = hoursUntilDry,
                        estimatedTime = now_timer w + hoursUntilDry * 3600000\<rparr>,
                     systemHealth =
                       \<lparr>alertCount = length anomalyAlerts,
                        alerts = anomalyAlerts,
                        overallStatus =
                          (if length (filter (\<lambda>a. severity a = high) anomalyAlerts) > 0
                           then WARNING
                           else if length anomalyAlerts > 0 then MONITOR
                           else HEALTHY)\<rparr>,
                     waterSavingPotential = waterSavings,
                     ndviInsights =
                       \<lparr>currentNDVI = ndvi fieldState,
                        trend = fst ndviTrend,
                        trendDescription = snd ndviTrend\<rparr>,
                     fieldSnapshot =
                       Some \<lparr>soilMoisture = soil_moisture fieldState,
                             fieldSnapshot.temperature = temperature fieldState,
                             fieldSnapshot.humidity = humidity fieldState,
                             rainDetected = rain_detected fieldState,
                             fieldSnapshot.ndvi = ndvi fieldState,
                             cropType = crop_type fieldState,
                             growthStage = growth_stage fieldState,
                             pumpOn = pump_on fieldState\<rparr>,
                     source = None,
                     stale = None\<rparr>)
          | _ \<Rightarrow> Inl RangeError))))"

text \<open>
  \<open>getIntelligenceReport(farmId, liveSensorData = null)\<close> returns the report and leaves
  the engine's maps as the second component. A fresh cache entry is returned when there
  is no live override; otherwise the report is composed, stored with the time of storing
  and returned tagged "computed". The \<open>catch\<close> block returns the cached report of the
  farm, whatever its age, tagged as a stale fallback, or the default report. The cache is
  written only after the last statement that can raise, so the \<open>catch\<close> block sees the
  maps as they were at the call.
\<close>

definition getIntelligenceReport ::
    "engine \<Rightarrow> world \<Rightarrow> string \<Rightarrow> sensorData option \<Rightarrow> report \<times> engine" where
  "getIntelligenceReport st w farmId' liveSensorData =
     (let cached = decisionCache st farmId';
          hit = (case cached of
                   None \<Rightarrow> None
                 | Some c \<Rightarrow>
                     if now_check w - cacheEntry.timestamp c < CACHE_TTL_MS \<and> liveSensorData = None
                     then Some c else None)
      in case hit of
           Some c \<Rightarrow> ((data c)\<lparr>source := Some cache\<rparr>, st)
         | None \<Rightarrow>
             (case composeReport st w farmId' liveSensorData of
                Inr report' \<Rightarrow>
                  (report'\<lparr>source := Some computed\<rparr>,
                   st\<lparr>decisionCache := (decisionCache st)
                        (farmId' \<mapsto> \<lparr>data = report', timestamp = now_store w\<rparr>)\<rparr>)
              | Inl error' \<Rightarrow>
                  (case decisionCache st farmId' of
                     Some fallback \<Rightarrow>
                       ((data fallback)\<lparr>source := Some error_fallback, stale := Some True\<rparr>, st)
                   | None \<Rightarrow> (getDefaultReport farmId' w, st))))"

text \<open>
  \<open>ingestSensorData(farmId, sensorData, meta = {})\<close>: the reading is appended to the farm's
  buffer, the buffer is cut to its last \<open>MAX_HISTORY\<close> entries, and the farm's cache entry
  is deleted. \<open>now\<close> stamps the entry.
\<close>

definition ingestSensorData :: "engine \<Rightarrow> string \<Rightarrow> sensorData \<Rightarrow> ingestMeta \<Rightarrow> int \<Rightarrow> engine" where
  "ingestSensorData st farmId' sensorData' meta now =
     (let history = dflt [] (sensorHistoryBuffers st farmId');
          pushed = history @
            [\<lparr>sensorData.soil_moisture = sensorData.soil_moisture sensorData',
              sensorData.temperature = sensorData.temperature sensorData',
              sensorData.humidity = sensorData.humidity sensorData',
              sensorData.rain_detected = sensorData.rain_detected sensorData',
              historyEntry.pump_on = dflt False (ingestMeta.pumpOn meta),
              historyEntry.timestamp = now\<rparr>];
          history' = (if length pushed > MAX_HISTORY
                      then drop (length pushed - MAX_HISTORY) pushed else pushed)
      in st\<lparr>sensorHistoryBuffers := (sensorHistoryBuffers st)(farmId' \<mapsto> history'),
            decisionCache := (decisionCache st)(farmId' := None)\<rparr>)"

text \<open>
  \<open>updateCropConfig(farmId, updates)\<close>: the update document goes to the store and is
  part of the world's answer here. When the store resolves, the farm's cache entry is
  deleted and the stored configuration returned; when it rejects, the error is rethrown
  and the cache is left as it is.
\<close>

definition updateCropConfig :: "engine \<Rightarrow> world \<Rightarrow> string \<Rightarrow> (error + cropConfig) \<times> engine" where
  "updateCropConfig st w farmId' =
     (case CropConfig_findOneAndUpdate w of
        Rejected \<Rightarrow> (Inl DbFailure, st)
      | Resolved config \<Rightarrow>
          (Inr config, st\<lparr>decisionCache := (decisionCache st)(farmId' := None)\<rparr>))"

section \<open>Concrete inputs\<close>

text \<open>
  A wheat field in the vegetative stage at 28 degrees and 60 percent humidity, with the
  given soil moisture, rain flag and threshold overrides.
\<close>

definition example_field :: "real \<Rightarrow> bool \<Rightarrow> threshold_table option \<Rightarrow> fieldState" where
  "example_field moisture rain tbl =
     \<lparr>farm_id = ''default_farm'', soil_moisture = Some moisture, temperature = Some 28,
      humidity = Some 60, rain_detected = Some rain, rain_forecast = Some False,
      ndvi = Some 0.5, crop_type = ''Wheat'', soil_type = ''Loamy'',
      growth_stage = Some ''vegetative'', thresholds = tbl, pump_on = Some False,
      field_area_sqm = Some 1000, sprinkler_flow_rate = Some 15,
      last_irrigation_hours = Some 24, coordinates = (28.6139, 77.209)\<rparr>"

text \<open>An override whose critical floor lies above its minimum.\<close>

definition malformed_table :: threshold_table where
  "malformed_table = [''vegetative'' \<mapsto> \<lparr>min_th = 45, max_th = 70, critical_low = 60\<rparr>]"

text \<open>An override that configures the flowering stage only.\<close>

definition flowering_only_table :: threshold_table where
  "flowering_only_table = [''flowering'' \<mapsto> \<lparr>min_th = 50, max_th = 75, critical_low = 40\<rparr>]"

text \<open>The engine right after start, and a world in which every store rejects.\<close>

definition empty_engine :: engine where
  "empty_engine = \<lparr>decisionCache = Map.empty, sensorHistoryBuffers = Map.empty\<rparr>"

definition offline_world :: "int \<Rightarrow> world" where
  "offline_world t =
     \<lparr>CropConfig_findOne = Rejected, CropConfig_create = Rejected,
      CropConfig_findOneAndUpdate = Rejected, NdviHistory_findOne = Rejected,
      Sensor_findOne = Rejected, IrrigationHistory_find = Rejected,
      NdviHistory_find = Rejected,
      now_check = t, now_alerts = t, now_report = t, now_timer = t, now_store = t,
      now_default = t, now_default_timer = t\<rparr>"

text \<open>The field state that the fusion falls back to for a farm.\<close>

definition default_field :: "string \<Rightarrow> fieldState" where
  "default_field farmId' =
     \<lparr>farm_id = farmId', soil_moisture = Some 50, temperature = Some 28,
      humidity = Some 60, rain_detected = Some False, rain_forecast = Some False,
      ndvi = Some 0.5, crop_type = ''Wheat'', soil_type = ''Loamy'',
      growth_stage = Some ''vegetative'', thresholds = None, pump_on = Some False,
      field_area_sqm = Some 1000, sprinkler_flow_rate = Some 15,
      last_irrigation_hours = Some 24, coordinates = (28.6139, 77.209)\<rparr>"

text \<open>History entries with a given soil moisture, and a field whose pump is running.\<close>

definition reading :: "real \<Rightarrow> historyEntry" where
  "reading moisture =
     \<lparr>sensorData.soil_moisture = Some moisture, sensorData.temperature = Some 28,
      sensorData.humidity = Some 60, sensorData.rain_detected = Some False,
      historyEntry.pump_on = True, historyEntry.timestamp = 0\<rparr>"

definition pumping_field :: fieldState where
  "pumping_field = (example_field 30 False None)\<lparr>pump_on := Some True\<rparr>"

text \<open>
  A history whose newest reading is 0.5 above its oldest, while the newest is 20.5 above
  the third-newest.
\<close>

definition rising_history :: "historyEntry list" where
  "rising_history = [reading 30, reading 10, reading 20, reading 30.5]"

text \<open>The report the engine composes for a farm at time \<open>t\<close> when every store rejects.\<close>

definition offline_report :: "int \<Rightarrow> string \<Rightarrow> report" where
  "offline_report t farmId' =
     \<lparr>farmId = farmId',
      report.timestamp = t,
      irrigationDecision =
        \<lparr>action = DELAY, priority = LOW, waterQuantityLiters = 0,
         reason = MoistureAdequate 50 4, delayHours = 4, irrigationTimeMinutes = 0\<rparr>,
      cropStressRisk = \<lparr>score = 5, level = LOW_STRESS, description = HealthExcellent\<rparr>,
      nextIrrigationTimer = \<lparr>hoursUntilNeeded = 4, estimatedTime = t + 14400000\<rparr>,
      systemHealth = \<lparr>alertCount = 0, alerts = [], overallStatus = HEALTHY\<rparr>,
      waterSavingPotential =
        \<lparr>savingPercent = 100, litersPerDay = Some 0,
         floodEquivalentLitersPerDay = Some 6000, totalSavedLiters = Some 42000,
         costSavedINR = Some 2100, irrigationCount = Some 0,
         efficiencyRating = Excellent\<rparr>,
      ndviInsights =
        \<lparr>currentNDVI = Some 0.5, trend = unknown, trendDescription = UnableToCompute\<rparr>,
      fieldSnapshot =
        Some \<lparr>soilMoisture = Some 50, fieldSnapshot.temperature = Some 28,
              fieldSnapshot.humidity = Some 60, rainDetected = Some False,
              fieldSnapshot.ndvi = Some 0.5, cropType = ''Wheat'',
              growthStage = Some ''vegetative'', pumpOn = Some False\<rparr>,
      source = None,
      stale = None\<rparr>"

text \<open>The engine after it has composed and stored that report at time 0.\<close>

definition warm_engine :: "string \<Rightarrow> engine" where
  "warm_engine farmId' =
     \<lparr>decisionCache = [farmId' \<mapsto> \<lparr>data = offline_report 0 farmId', timestamp = 0\<rparr>],
      sensorHistoryBuffers = Map.empty\<rparr>"

text \<open>
  A world whose config store holds a farm in the harvest stage with an override table
  that configures the flowering stage only.
\<close>

definition misconfigured_world :: "int \<Rightarrow> world" where
  "misconfigured_world t =
     (offline_world t)
       \<lparr>CropConfig_findOne :=
          Resolved (Some ((fallbackCropConfig ''default_farm'')
            \<lparr>cropConfig.growth_stage := Some ''harvest'',
             cropConfig.thresholds := Some flowering_only_table\<rparr>))\<rparr>"

text \<open>A live reading of a dry field.\<close>

definition dry_reading :: sensorData where
  "dry_reading =
     \<lparr>sensorData.soil_moisture = Some 30, sensorData.temperature = Some 28,
      sensorData.humidity = Some 60, sensorData.rain_detected = Some False\<rparr>"

text \<open>
  The report composed at time \<open>t\<close> from that reading when every store rejects: the soil
  is below the critical floor of 35, so irrigation starts.
\<close>

definition dry_report :: "int \<Rightarrow> string \<Rightarrow> report" where
  "dry_report t farmId' =
     (offline_report t farmId')
       \<lparr>irrigationDecision :=
          \<lparr>action = START, priority = HIGH, waterQuantityLiters = 90,
           reason = CriticalDeficit 30 35 ''vegetative'', delayHours = 0,
           irrigationTimeMinutes = 6\<rparr>,
        cropStressRisk := \<lparr>score = 45, level = MODERATE, description = ModerateStress\<rparr>,
        nextIrrigationTimer := \<lparr>hoursUntilNeeded = 0, estimatedTime = t\<rparr>,
        fieldSnapshot :=
          Some \<lparr>soilMoisture = Some 30, fieldSnapshot.temperature = Some 28,
                fieldSnapshot.humidity = Some 60, rainDetected = Some False,
                fieldSnapshot.ndvi = Some 0.5, cropType = ''Wheat'',
                growthStage = Some ''vegetative'', pumpOn = Some False\<rparr>\<rparr>"

text \<open>
  A world whose config store accepts an update and answers with the stored configuration,
  and the options of an ingestion that says nothing about the pump.
\<close>

definition updating_world :: "int \<Rightarrow> world" where
  "updating_world t =
     (offline_world t)
       \<lparr>CropConfig_findOneAndUpdate := Resolved (fallbackCropConfig ''default_farm'')\<rparr>"

definition no_meta :: ingestMeta where
  "no_meta = \<lparr>ingestMeta.pumpOn = None, pumpMode = None\<rparr>"

section \<open>Rounding and the sub-scores\<close>

lemmas example_defs = example_field_def malformed_table_def flowering_only_table_def
  getThresholds_def js_get_def DEFAULT_THRESHOLDS_def object_prototype_names_def dflt_def


lemma Math_round_nonneg: "0 \<le> x \<Longrightarrow> 0 \<le> Math_round x"
  by (simp add: Math_round_def)

lemma Math_round_of_int [simp]: "Math_round (of_int n) = n"
  unfolding Math_round_def by linarith

lemma Math_round_nearest: "x - 1 / 2 < of_int (Math_round x) \<and> of_int (Math_round x) \<le> x + 1 / 2"
  unfolding Math_round_def by linarith

lemma Math_round_floor_1: "real_of_int (max 1 (Math_round q)) \<le> max 1 (q + 1 / 2)"
proof (cases "Math_round q \<le> 1")
  case True
  then have "max 1 (Math_round q) = 1" by simp
  then show ?thesis by simp
next
  case False
  then have "max 1 (Math_round q) = Math_round q" by simp
  moreover have "real_of_int (Math_round q) \<le> q + 1 / 2"
    using Math_round_nearest [of q] by simp
  ultimately show ?thesis by (simp add: le_max_iff_disj)
qed


lemma estimateDryingTime_nonneg: "0 \<le> estimateDryingTime c t T H"
  by (simp add: estimateDryingTime_def Let_def max_def)

lemma estimateDryingTime_zero_iff: "estimateDryingTime c t T H = 0 \<longleftrightarrow> c \<le> t"
  by (simp add: estimateDryingTime_def Let_def max_def)






section \<open>The irrigation decision\<close>

text \<open>
  C1. Whenever the field state has \<open>rain_detected = true\<close>, the decision is STOP with LOW
  priority, 0 liters and a delay of 6 hours, whatever the soil moisture, the thresholds
  and every other field are.
\<close>

theorem rain_detected_stops:
  "rain_detected fs = Some True \<Longrightarrow>
   generateIrrigationDecision fs =
     Inr \<lparr>action = STOP, priority = LOW, waterQuantityLiters = 0,
          reason = RainDetected, delayHours = 6\<rparr>"
  by (simp add: generateIrrigationDecision_def dflt_def Let_def)

text \<open>At 5 percent soil moisture, far below the critical floor, rain still stops irrigation.\<close>

theorem rain_detected_stops_witness:
  "rain_detected (example_field 5 True None) = Some True \<and>
   generateIrrigationDecision (example_field 5 True None) =
     Inr \<lparr>action = STOP, priority = LOW, waterQuantityLiters = 0,
          reason = RainDetected, delayHours = 6\<rparr>"
  using rain_detected_stops [of "example_field 5 True None"]
  by (simp add: example_field_def)

text \<open>
  C4, as amended. A decision that is returned never has a negative delay. When the field
  area is not negative and the resolved threshold set has its critical floor at or below
  its minimum, a decision is returned and its liter quantity is not negative either.
  Nothing clamps the quantity: the bound rests on these two conditions.
\<close>

theorem decision_quantities_nonneg:
  "(generateIrrigationDecision fs = Inr d \<longrightarrow> 0 \<le> delayHours d) \<and>
   (0 \<le> dflt 1000 (field_area_sqm fs) \<and>
    getThresholds (dflt ''vegetative'' (growth_stage fs)) (thresholds fs) = Entry t \<and>
    critical_low t \<le> min_th t \<longrightarrow>
      (\<exists>d'. generateIrrigationDecision fs = Inr d' \<and>
            0 \<le> waterQuantityLiters d' \<and> 0 \<le> delayHours d'))"
proof (intro conjI impI)
  assume "generateIrrigationDecision fs = Inr d"
  then show "0 \<le> delayHours d"
    unfolding generateIrrigationDecision_def Let_def
    using estimateDryingTime_nonneg
    by (auto split: if_splits resolved.splits)
next
  assume a: "0 \<le> dflt 1000 (field_area_sqm fs) \<and>
    getThresholds (dflt ''vegetative'' (growth_stage fs)) (thresholds fs) = Entry t \<and>
    critical_low t \<le> min_th t"
  then have area: "0 \<le> dflt 1000 (field_area_sqm fs)"
    and th: "getThresholds (dflt ''vegetative'' (growth_stage fs)) (thresholds fs) = Entry t"
    and ok: "critical_low t \<le> min_th t" by simp_all
  have pos: "0 \<le> Math_round (((min_th t - m) / 100) * dflt 1000 (field_area_sqm fs) * c)"
    if "m \<le> min_th t" "0 \<le> c" for m c
    using that area by (intro Math_round_nonneg mult_nonneg_nonneg) auto
  have p6: "0 \<le> Math_round (((min_th t - m) / 100) * dflt 1000 (field_area_sqm fs) * 0.6)"
    if "m \<le> min_th t" for m using pos[OF that, of "0.6"] by simp
  have p5: "0 \<le> Math_round (((min_th t - m) / 100) * dflt 1000 (field_area_sqm fs) * 0.5)"
    if "m \<le> min_th t" for m using pos[OF that, of "0.5"] by simp
  show "\<exists>d'. generateIrrigationDecision fs = Inr d' \<and>
            0 \<le> waterQuantityLiters d' \<and> 0 \<le> delayHours d'"
    unfolding generateIrrigationDecision_def Let_def th
    using ok p5 p6 estimateDryingTime_nonneg
    by (auto simp del: divide_le_0_iff)
qed

text \<open>At 30 percent under the default table the engine asks for 90 liters.\<close>

theorem decision_quantities_nonneg_witness:
  "generateIrrigationDecision (example_field 30 False None) =
     Inr \<lparr>action = START, priority = HIGH, waterQuantityLiters = 90,
          reason = CriticalDeficit 30 35 ''vegetative'', delayHours = 0\<rparr> \<and>
   (\<exists>d'. generateIrrigationDecision (example_field 30 False None) = Inr d' \<and>
         0 \<le> waterQuantityLiters d' \<and> 0 \<le> delayHours d')"
  using decision_quantities_nonneg [of "example_field 30 False None"
      "\<lparr>action = START, priority = HIGH, waterQuantityLiters = 90,
          reason = CriticalDeficit 30 35 ''vegetative'', delayHours = 0\<rparr>"
      "\<lparr>min_th = 45, max_th = 70, critical_low = 35\<rparr>"]
  by (simp add: generateIrrigationDecision_def example_defs Let_def Math_round_def)

text \<open>
  With a critical floor of 60 above a minimum of 45, a soil moisture of 50 takes the
  critical rule with a deficit of -5, and the engine returns -30 liters.
\<close>

theorem negative_liters_counterexample:
  "generateIrrigationDecision (example_field 50 False (Some malformed_table)) =
     Inr \<lparr>action = START, priority = HIGH, waterQuantityLiters = - 30,
          reason = CriticalDeficit 50 60 ''vegetative'', delayHours = 0\<rparr>"
  by (simp add: generateIrrigationDecision_def example_defs Let_def Math_round_def)

section \<open>The drying-time estimate\<close>

text \<open>
  C5, as amended. \<open>estimateDryingTime\<close> returns 0 exactly when the current moisture is
  at or below the target. Above the target it returns at least 1: the moisture gap divided
  by 1.5 times the evapotranspiration factor (floored at 0.3), rounded to the nearest
  integer and not up, then raised to 1. For (60, 40, 30, 50) that is 13.
\<close>

theorem estimateDryingTime_rounds_to_nearest:
  "(estimateDryingTime c t T H = 0 \<longleftrightarrow> c \<le> t) \<and>
   (t < c \<longrightarrow>
      1 \<le> estimateDryingTime c t T H \<and>
      estimateDryingTime c t T H =
        max 1 (Math_round ((c - t) /
          (1.5 * max 0.3 ((dflt 30 T / 30) * ((100 - dflt 50 H) / 50))))) \<and>
      of_int (estimateDryingTime c t T H) \<le>
        max 1 ((c - t) / (1.5 * max 0.3 ((dflt 30 T / 30) * ((100 - dflt 50 H) / 50))) + 1 / 2)) \<and>
   estimateDryingTime 60 40 (Some 30) (Some 50) = 13"
proof (intro conjI impI)
  show "estimateDryingTime c t T H = 0 \<longleftrightarrow> c \<le> t"
    by (rule estimateDryingTime_zero_iff)
  show "estimateDryingTime 60 40 (Some 30) (Some 50) = 13"
    by (simp add: estimateDryingTime_def dflt_def Let_def Math_round_def)
next
  assume "t < c"
  then show "1 \<le> estimateDryingTime c t T H"
    by (simp add: estimateDryingTime_def Let_def)
next
  assume "t < c"
  then show eq: "estimateDryingTime c t T H =
      max 1 (Math_round ((c - t) /
        (1.5 * max 0.3 ((dflt 30 T / 30) * ((100 - dflt 50 H) / 50)))))"
    by (simp add: estimateDryingTime_def Let_def)
  show "of_int (estimateDryingTime c t T H) \<le>
      max 1 ((c - t) / (1.5 * max 0.3 ((dflt 30 T / 30) * ((100 - dflt 50 H) / 50))) + 1 / 2)"
    unfolding eq by (rule Math_round_floor_1)
qed

theorem estimateDryingTime_rounds_to_nearest_witness:
  "(40::real) < 60 \<and> 1 \<le> estimateDryingTime 60 40 (Some 30) (Some 50) \<and>
   estimateDryingTime 60 40 (Some 30) (Some 50) = max 1 (Math_round (20 / 1.5)) \<and>
   Math_round (20 / 1.5) = 13"
  using estimateDryingTime_rounds_to_nearest [of 60 40 "Some 30" "Some 50"]
  by (simp add: dflt_def Math_round_def)

text \<open>The gap of 20 at a rate of 1.5 is 13.33: rounding up would give 14, the code gives 13.\<close>

theorem estimateDryingTime_not_ceil_counterexample:
  "estimateDryingTime 60 40 (Some 30) (Some 50) = 13 \<and> \<lceil>(20::real) / 1.5\<rceil> = 14"
  by (simp add: estimateDryingTime_def dflt_def Let_def Math_round_def
      ceiling_divide_eq_div_numeral)

section \<open>The crop stress score\<close>




section \<open>Threshold resolution\<close>




section \<open>Graceful degradation of the fusion\<close>

lemma buildFieldState_defaults:
  assumes "CropConfig_findOne w = Rejected \<or>
           (CropConfig_findOne w = Resolved None \<and> CropConfig_create w = Rejected)"
    and "NdviHistory_findOne w = Rejected \<or> NdviHistory_findOne w = Resolved None"
    and "Sensor_findOne w = Rejected \<or> Sensor_findOne w = Resolved None"
    and "sensorHistoryBuffers st farmId' = None \<or> sensorHistoryBuffers st farmId' = Some []"
  shows "buildFieldState st w farmId' None = default_field farmId'"
proof -
  have c: "getCropConfig w farmId' = fallbackCropConfig farmId'"
    using assms(1) by (auto simp: getCropConfig_def)
  have n: "getLatestNDVI w = None"
    using assms(2) by (auto simp: getLatestNDVI_def)
  have s: "getLatestSensor w = None"
    using assms(3) by (auto simp: getLatestSensor_def)
  have h: "dflt [] (sensorHistoryBuffers st farmId') = []"
    using assms(4) by (auto simp: dflt_def)
  show ?thesis
    unfolding buildFieldState_def Let_def c n s h
    by (simp add: default_field_def fallbackCropConfig_def nullish_def dflt_def
        or_string_def or_number_def)
qed

lemma default_field_decision:
  "generateIrrigationDecision (default_field farmId') =
     Inr \<lparr>action = DELAY, priority = LOW, waterQuantityLiters = 0,
          reason = MoistureAdequate 50 4, delayHours = 4\<rparr>"
  by (simp add: generateIrrigationDecision_def default_field_def getThresholds_def js_get_def
      DEFAULT_THRESHOLDS_def dflt_def Let_def estimateDryingTime_def Math_round_def)

text \<open>
  C7. When the config store, the NDVI store and the sensor store give nothing (the query
  rejects or finds no record, and no configuration can be created) and the farm's history
  buffer is empty, \<open>buildFieldState\<close> without a live override returns the default field
  state: soil moisture 50, temperature 28, humidity 60, NDVI 0.5, stage "vegetative",
  both rain flags false. The decision on that state is DELAY with LOW priority (no water,
  next irrigation in about 4 hours).
\<close>

theorem graceful_degradation:
  assumes "CropConfig_findOne w = Rejected \<or>
           (CropConfig_findOne w = Resolved None \<and> CropConfig_create w = Rejected)"
    and "NdviHistory_findOne w = Rejected \<or> NdviHistory_findOne w = Resolved None"
    and "Sensor_findOne w = Rejected \<or> Sensor_findOne w = Resolved None"
    and "sensorHistoryBuffers st farmId' = None \<or> sensorHistoryBuffers st farmId' = Some []"
  shows "buildFieldState st w farmId' None = default_field farmId' \<and>
         soil_moisture (default_field farmId') = Some 50 \<and>
         temperature (default_field farmId') = Some 28 \<and>
         humidity (default_field farmId') = Some 60 \<and>
         ndvi (default_field farmId') = Some 0.5 \<and>
         growth_stage (default_field farmId') = Some ''vegetative'' \<and>
         rain_detected (default_field farmId') = Some False \<and>
         rain_forecast (default_field farmId') = Some False \<and>
         generateIrrigationDecision (buildFieldState st w farmId' None) =
           Inr \<lparr>action = DELAY, priority = LOW, waterQuantityLiters = 0,
                reason = MoistureAdequate 50 4, delayHours = 4\<rparr>"
  using buildFieldState_defaults [OF assms] default_field_decision [of farmId']
  by (simp add: default_field_def)

theorem graceful_degradation_witness:
  "buildFieldState empty_engine (offline_world 0) ''default_farm'' None =
     default_field ''default_farm'' \<and>
   generateIrrigationDecision (buildFieldState empty_engine (offline_world 0) ''default_farm'' None) =
     Inr \<lparr>action = DELAY, priority = LOW, waterQuantityLiters = 0,
          reason = MoistureAdequate 50 4, delayHours = 4\<rparr>"
proof -
  have "CropConfig_findOne (offline_world 0) = Rejected \<or>
        (CropConfig_findOne (offline_world 0) = Resolved None \<and>
         CropConfig_create (offline_world 0) = Rejected)"
    and "NdviHistory_findOne (offline_world 0) = Rejected \<or>
         NdviHistory_findOne (offline_world 0) = Resolved None"
    and "Sensor_findOne (offline_world 0) = Rejected \<or>
         Sensor_findOne (offline_world 0) = Resolved None"
    and "sensorHistoryBuffers empty_engine ''default_farm'' = None \<or>
         sensorHistoryBuffers empty_engine ''default_farm'' = Some []"
    by (simp_all add: offline_world_def empty_engine_def)
  from graceful_degradation [OF this] show ?thesis by blast
qed

section \<open>Anomaly detection\<close>

lemma subseq_check:
  "subseq (map alert_type xs) [k] \<Longrightarrow> subseq (map alert_type ys) ks \<Longrightarrow>
   subseq (map alert_type (xs @ ys)) (k # ks)"
  using list_emb_append_mono [of "(=)" "map alert_type xs" "[k]" "map alert_type ys" ks]
  by simp

lemma pump_check_types: "subseq (map alert_type (pump_check fs h now)) [PUMP_ANOMALY]"
  by (simp add: pump_check_def Let_def split: option.splits)

lemma sensor_check_types: "subseq (map alert_type (sensor_check fs now)) [SENSOR_FAILURE]"
  by (simp add: sensor_check_def)

lemma waterlogging_check_types:
  "subseq (map alert_type (waterlogging_check fs now)) [WATERLOGGING]"
  by (simp add: waterlogging_check_def split: option.splits)

lemma ndvi_check_types: "subseq (map alert_type (ndvi_check fs now)) [NDVI_MOISTURE_CONFLICT]"
  by (simp add: ndvi_check_def split: option.splits)

lemma heat_check_types: "subseq (map alert_type (heat_check fs now)) [HEAT_STRESS]"
  by (simp add: heat_check_def split: option.splits)

lemma frost_check_types: "subseq (map alert_type (frost_check fs now)) [FROST_RISK]"
  by (simp add: frost_check_def split: option.splits)

lemma detectAnomalies_order:
  "subseq (map alert_type (detectAnomalies fs h now))
     [PUMP_ANOMALY, SENSOR_FAILURE, WATERLOGGING, NDVI_MOISTURE_CONFLICT, HEAT_STRESS,
      FROST_RISK]"
  unfolding detectAnomalies_def
  by (intro subseq_check pump_check_types sensor_check_types waterlogging_check_types
      ndvi_check_types heat_check_types frost_check_types)

text \<open>The window \<open>slice(-3)\<close> of a history with at least three entries.\<close>

lemma recent_window:
  assumes "3 \<le> length h"
  shows "drop (length h - 3) h ! (length (drop (length h - 3) h) - 1) = last h"
    and "drop (length h - 3) h ! 0 = h ! (length h - 3)"
proof -
  have "h \<noteq> []" using assms by auto
  moreover have "Suc (Suc (length h - 3)) = length h - 1" using assms by linarith
  ultimately show "drop (length h - 3) h ! (length (drop (length h - 3) h) - 1) = last h"
    using assms by (simp add: last_conv_nth)
  show "drop (length h - 3) h ! 0 = h ! (length h - 3)"
    using assms by simp
qed

lemma pump_check_fires:
  "pump_check fs h now =
     (if pump_on fs = Some True \<and> 3 \<le> length h \<and>
         (\<exists>a b. sensorData.soil_moisture (h ! (length h - 3)) = Some a \<and>
                sensorData.soil_moisture (last h) = Some b \<and> b - a < 2)
      then [\<lparr>alert_type = PUMP_ANOMALY, severity = high,
              message = MotorOnMoistureNotIncreasing, timestamp = now\<rparr>]
      else [])"
proof (cases "3 \<le> length h")
  case True
  show ?thesis
    unfolding pump_check_def Let_def recent_window[OF True]
    using True by (cases "pump_on fs") (auto simp: dflt_def split: option.splits)
next
  case False
  then show ?thesis by (simp add: pump_check_def)
qed

lemma detectAnomalies_fires:
  "(PUMP_ANOMALY \<in> alert_type ` set (detectAnomalies fs h now)) =
     (pump_on fs = Some True \<and> 3 \<le> length h \<and>
      (\<exists>a b. sensorData.soil_moisture (h ! (length h - 3)) = Some a \<and>
             sensorData.soil_moisture (last h) = Some b \<and> b - a < 2))"
  "(SENSOR_FAILURE \<in> alert_type ` set (detectAnomalies fs h now)) =
     (temperature fs = Some 0 \<and> humidity fs = Some 0)"
  "(WATERLOGGING \<in> alert_type ` set (detectAnomalies fs h now)) =
     (\<exists>m. soil_moisture fs = Some m \<and> m > 95)"
  "(NDVI_MOISTURE_CONFLICT \<in> alert_type ` set (detectAnomalies fs h now)) =
     (\<exists>m n. soil_moisture fs = Some m \<and> ndvi fs = Some n \<and> m > 60 \<and> n < 0.25)"
  "(HEAT_STRESS \<in> alert_type ` set (detectAnomalies fs h now)) =
     (\<exists>t. temperature fs = Some t \<and> t > 42)"
  "(FROST_RISK \<in> alert_type ` set (detectAnomalies fs h now)) =
     (\<exists>t. temperature fs = Some t \<and> t < 2)"
  unfolding detectAnomalies_def pump_check_fires sensor_check_def waterlogging_check_def
    ndvi_check_def heat_check_def frost_check_def
  by (auto split: option.splits dest: sym)

lemma pump_alert_member:
  assumes "pump_on fs = Some True" "3 \<le> length h"
    "sensorData.soil_moisture (h ! (length h - 3)) = Some a"
    "sensorData.soil_moisture (last h) = Some b" "b - a < 2"
  shows "\<lparr>alert_type = PUMP_ANOMALY, severity = high,
           message = MotorOnMoistureNotIncreasing, timestamp = now\<rparr>
         \<in> set (detectAnomalies fs h now)"
  unfolding detectAnomalies_def pump_check_fires using assms by auto

text \<open>
  C8, as amended. The alert kinds of a result appear in the fixed order pump anomaly,
  sensor failure, waterlogging, NDVI/moisture conflict, heat stress, frost risk, each at
  most once, and each kind is present exactly when its own trigger holds, whatever the
  other checks find. The pump check looks at the last three entries of the history: when
  the pump is on, the history has at least 3 entries and the newest reading is less than
  2 points above the third-newest, the result contains the high-severity PUMP_ANOMALY
  alert.
\<close>

theorem detectAnomalies_order_and_triggers:
  "subseq (map alert_type (detectAnomalies fs h now))
     [PUMP_ANOMALY, SENSOR_FAILURE, WATERLOGGING, NDVI_MOISTURE_CONFLICT, HEAT_STRESS,
      FROST_RISK] \<and>
   ((PUMP_ANOMALY \<in> alert_type ` set (detectAnomalies fs h now)) =
      (pump_on fs = Some True \<and> 3 \<le> length h \<and>
       (\<exists>a b. sensorData.soil_moisture (h ! (length h - 3)) = Some a \<and>
              sensorData.soil_moisture (last h) = Some b \<and> b - a < 2))) \<and>
   ((SENSOR_FAILURE \<in> alert_type ` set (detectAnomalies fs h now)) =
      (temperature fs = Some 0 \<and> humidity fs = Some 0)) \<and>
   ((WATERLOGGING \<in> alert_type ` set (detectAnomalies fs h now)) =
      (\<exists>m. soil_moisture fs = Some m \<and> m > 95)) \<and>
   ((NDVI_MOISTURE_CONFLICT \<in> alert_type ` set (detectAnomalies fs h now)) =
      (\<exists>m n. soil_moisture fs = Some m \<and> ndvi fs = Some n \<and> m > 60 \<and> n < 0.25)) \<and>
   ((HEAT_STRESS \<in> alert_type ` set (detectAnomalies fs h now)) =
      (\<exists>t. temperature fs = Some t \<and> t > 42)) \<and>
   ((FROST_RISK \<in> alert_type ` set (detectAnomalies fs h now)) =
      (\<exists>t. temperature fs = Some t \<and> t < 2)) \<and>
   (pump_on fs = Some True \<and> 3 \<le> length h \<and>
    sensorData.soil_moisture (h ! (length h - 3)) = Some a \<and>
    sensorData.soil_moisture (last h) = Some b \<and> b - a < 2 \<longrightarrow>
      \<lparr>alert_type = PUMP_ANOMALY, severity = high,
        message = MotorOnMoistureNotIncreasing, timestamp = now\<rparr>
      \<in> set (detectAnomalies fs h now))"
  using detectAnomalies_order [of fs h now] detectAnomalies_fires [of fs h now]
    pump_alert_member [of fs h a b now]
  by blast

text \<open>Readings of 30, 30 and 30.5 with the pump on: a rise of 0.5 raises the alert.\<close>

theorem detectAnomalies_order_and_triggers_witness:
  "pump_on pumping_field = Some True \<and>
   (3::nat) \<le> length [reading 30, reading 30, reading 30.5] \<and>
   \<lparr>alert_type = PUMP_ANOMALY, severity = high,
     message = MotorOnMoistureNotIncreasing, timestamp = 7\<rparr>
   \<in> set (detectAnomalies pumping_field [reading 30, reading 30, reading 30.5] 7)"
  using detectAnomalies_order_and_triggers
    [of pumping_field "[reading 30, reading 30, reading 30.5]" 7 30 "30.5"]
  by (simp add: pumping_field_def example_field_def reading_def)

text \<open>
  With four readings 30, 10, 20, 30.5 and the pump on, the rise from the first to the
  last entry of the history is 0.5, but the last three entries rise by 20.5: no alert.
\<close>

theorem pump_window_counterexample:
  "pump_on pumping_field = Some True \<and>
   3 \<le> length rising_history \<and>
   sensorData.soil_moisture (hd rising_history) = Some 30 \<and>
   sensorData.soil_moisture (last rising_history) = Some 30.5 \<and>
   (30.5 :: real) - 30 < 2 \<and>
   detectAnomalies pumping_field rising_history 7 = []"
  by (simp add: detectAnomalies_def pump_check_def sensor_check_def waterlogging_check_def
      ndvi_check_def heat_check_def frost_check_def pumping_field_def example_field_def
      rising_history_def reading_def dflt_def Let_def)

section \<open>The report entry point and its cache\<close>

text \<open>A fresh entry answers a call without override.\<close>

lemma report_from_cache:
  "decisionCache st f = Some c \<Longrightarrow> now_check w - cacheEntry.timestamp c < CACHE_TTL_MS \<Longrightarrow>
   getIntelligenceReport st w f None = ((data c)\<lparr>source := Some cache\<rparr>, st)"
  by (simp add: getIntelligenceReport_def)

text \<open>Any other call composes the report, and falls back when the composition raises.\<close>

lemma report_on_miss:
  "live \<noteq> None \<or> decisionCache st f = None \<or>
   (\<exists>c. decisionCache st f = Some c \<and> \<not> now_check w - cacheEntry.timestamp c < CACHE_TTL_MS) \<Longrightarrow>
   getIntelligenceReport st w f live =
     (case composeReport st w f live of
        Inr r \<Rightarrow>
          (r\<lparr>source := Some computed\<rparr>,
           st\<lparr>decisionCache := (decisionCache st)(f \<mapsto> \<lparr>data = r, timestamp = now_store w\<rparr>)\<rparr>)
      | Inl e \<Rightarrow>
          (case decisionCache st f of
             Some fb \<Rightarrow> ((data fb)\<lparr>source := Some error_fallback, stale := Some True\<rparr>, st)
           | None \<Rightarrow> (getDefaultReport f w, st)))"
  by (auto simp: getIntelligenceReport_def split: option.splits sum.splits)

lemma report_source:
  "source (fst (getIntelligenceReport st w f live)) \<in>
     {Some computed, Some cache, Some error_fallback, Some default_source}"
  by (auto simp: getIntelligenceReport_def getDefaultReport_def Let_def
      split: option.splits sum.splits)

lemma report_source_override:
  "source (fst (getIntelligenceReport st w f (Some d))) \<noteq> Some cache"
  by (auto simp: getIntelligenceReport_def getDefaultReport_def Let_def
      split: option.splits sum.splits)

text \<open>What the first of two calls can have returned when the second finds an entry.\<close>

lemma first_call_cases:
  assumes "getIntelligenceReport st w f None = (r1, st1)" "decisionCache st1 f = Some c"
  shows "r1 = (data c)\<lparr>source := Some computed\<rparr> \<or> r1 = (data c)\<lparr>source := Some cache\<rparr> \<or>
         r1 = (data c)\<lparr>source := Some error_fallback, stale := Some True\<rparr>"
  using assms
  by (auto simp: getIntelligenceReport_def Let_def split: option.splits sum.splits if_splits)

lemma ingest_deletes:
  "decisionCache (ingestSensorData st f sd meta now) f = None"
  "g \<noteq> f \<Longrightarrow> decisionCache (ingestSensorData st f sd meta now) g = decisionCache st g"
  by (simp_all add: ingestSensorData_def Let_def)

lemma update_deletes:
  "updateCropConfig st w f = (Inr cfg, st') \<Longrightarrow> decisionCache st' f = None"
  by (auto simp: updateCropConfig_def split: outcome.splits)

text \<open>An update the store accepts succeeds and deletes the entry; a rejected one changes nothing.\<close>

lemma update_resolved:
  "CropConfig_findOneAndUpdate w = Resolved cfg \<Longrightarrow>
   updateCropConfig st w f =
     (Inr cfg, st\<lparr>decisionCache := (decisionCache st)(f := None)\<rparr>)"
  by (simp add: updateCropConfig_def)

lemma update_rejected:
  "CropConfig_findOneAndUpdate w = Rejected \<Longrightarrow>
   updateCropConfig st w f = (Inl DbFailure, st)"
  by (simp add: updateCropConfig_def)

lemma recompose_after_update:
  "composeReport empty_engine (offline_world 6000) ''default_farm'' None =
     Inr (offline_report 6000 ''default_farm'')"
  by code_simp

lemma recompose_after_ingest:
  "composeReport
     (ingestSensorData (warm_engine ''default_farm'') ''default_farm'' dry_reading no_meta 5000)
     (offline_world 6000) ''default_farm'' None =
     Inr (dry_report 6000 ''default_farm'')"
  by code_simp

lemma offline_compose:
  "composeReport empty_engine (offline_world 0) ''default_farm'' None =
     Inr (offline_report 0 ''default_farm'')"
  by code_simp

lemma misconfigured_compose:
  "composeReport empty_engine (misconfigured_world 90000) ''default_farm'' None = Inl TypeError"
  "composeReport (warm_engine ''default_farm'') (misconfigured_world 90000) ''default_farm'' None =
     Inl TypeError"
  by code_simp+

lemma dry_compose:
  "composeReport (warm_engine ''default_farm'') (offline_world 1000) ''default_farm''
     (Some dry_reading) = Inr (dry_report 1000 ''default_farm'')"
  by code_simp

text \<open>
  C2. \<open>getIntelligenceReport\<close> is a total function into reports: no exception leaves it.
  Whenever the call is not answered from the cache and composing the report raises (in
  the fusion, the decision, the scoring, the anomaly or the savings computation), the
  result is the farm's cached report, whatever its age, tagged \<open>source =
  "error_fallback"\<close> and \<open>stale = true\<close>, or the static default report when the farm
  has no cache entry; the maps are left unchanged. Every result carries one of the four
  source tags.
\<close>

theorem report_never_raises:
  "(composeReport st w f live = Inl e \<and>
    (live \<noteq> None \<or> decisionCache st f = None \<or>
     (\<exists>c. decisionCache st f = Some c \<and>
          \<not> now_check w - cacheEntry.timestamp c < CACHE_TTL_MS)) \<longrightarrow>
      getIntelligenceReport st w f live =
        (case decisionCache st f of
           Some fb \<Rightarrow> ((data fb)\<lparr>source := Some error_fallback, stale := Some True\<rparr>, st)
         | None \<Rightarrow> (getDefaultReport f w, st))) \<and>
   source (fst (getIntelligenceReport st w f live)) \<in>
     {Some computed, Some cache, Some error_fallback, Some default_source}"
proof (intro conjI impI)
  assume a: "composeReport st w f live = Inl e \<and>
    (live \<noteq> None \<or> decisionCache st f = None \<or>
     (\<exists>c. decisionCache st f = Some c \<and>
          \<not> now_check w - cacheEntry.timestamp c < CACHE_TTL_MS))"
  then have "composeReport st w f live = Inl e" by simp
  with a report_on_miss [of live st f w]
  show "getIntelligenceReport st w f live =
        (case decisionCache st f of
           Some fb \<Rightarrow> ((data fb)\<lparr>source := Some error_fallback, stale := Some True\<rparr>, st)
         | None \<Rightarrow> (getDefaultReport f w, st))"
    by simp
next
  show "source (fst (getIntelligenceReport st w f live)) \<in>
     {Some computed, Some cache, Some error_fallback, Some default_source}"
    by (rule report_source)
qed

text \<open>
  A farm in the harvest stage whose override table has only a flowering entry makes the
  decision engine raise. After 90 seconds the report stored at time 0 is returned as a
  stale fallback; with no stored report the default report is returned.
\<close>

theorem report_never_raises_witness:
  "getIntelligenceReport (warm_engine ''default_farm'') (misconfigured_world 90000)
     ''default_farm'' None =
     ((offline_report 0 ''default_farm'')\<lparr>source := Some error_fallback, stale := Some True\<rparr>,
      warm_engine ''default_farm'') \<and>
   getIntelligenceReport empty_engine (misconfigured_world 90000) ''default_farm'' None =
     (getDefaultReport ''default_farm'' (misconfigured_world 90000), empty_engine)"
  using report_never_raises [of "warm_engine ''default_farm''" "misconfigured_world 90000"
      "''default_farm''" None TypeError]
    report_never_raises [of empty_engine "misconfigured_world 90000" "''default_farm''" None
      TypeError]
    misconfigured_compose
  by (simp add: warm_engine_def empty_engine_def misconfigured_world_def offline_world_def
      CACHE_TTL_MS_def)

text \<open>
  C3. (1) When a call without override is followed by a call without override that finds
  the farm's cache entry younger than the TTL of one minute, the second call returns the
  cached report tagged \<open>source = "cache"\<close> and leaves the maps alone, and the first call
  returned that same report: the two differ in the \<open>source\<close> and \<open>stale\<close> tags at most.
  (2) A call with a live override is never answered from the cache, whatever the age of
  the entry: when the composition succeeds its report is returned tagged "computed" and
  replaces the entry. (3) \<open>ingestSensorData\<close> deletes the farm's entry (and no other).
  \<open>updateCropConfig\<close> succeeds whenever the config store accepts the update: it then
  returns the stored configuration and deletes the farm's entry, leaving everything else
  as it was; when the store rejects, the error is passed on and nothing changes. With no
  entry the next call composes the report anew.
\<close>

theorem cache_correctness:
  "(getIntelligenceReport st w1 f None = (r1, st1) \<and> decisionCache st1 f = Some c \<and>
    now_check w2 - cacheEntry.timestamp c < CACHE_TTL_MS \<longrightarrow>
      getIntelligenceReport st1 w2 f None = ((data c)\<lparr>source := Some cache\<rparr>, st1) \<and>
      r1\<lparr>source := None, stale := None\<rparr> = (data c)\<lparr>source := None, stale := None\<rparr> \<and>
      (r1 = (data c)\<lparr>source := Some computed\<rparr> \<or> r1 = (data c)\<lparr>source := Some cache\<rparr> \<or>
       r1 = (data c)\<lparr>source := Some error_fallback, stale := Some True\<rparr>)) \<and>
   (composeReport st w f (Some d) = Inr r \<longrightarrow>
      getIntelligenceReport st w f (Some d) =
        (r\<lparr>source := Some computed\<rparr>,
         st\<lparr>decisionCache := (decisionCache st)(f \<mapsto> \<lparr>data = r, timestamp = now_store w\<rparr>)\<rparr>)) \<and>
   source (fst (getIntelligenceReport st w f (Some d))) \<noteq> Some cache \<and>
   decisionCache (ingestSensorData st f sd meta now) f = None \<and>
   (g \<noteq> f \<longrightarrow> decisionCache (ingestSensorData st f sd meta now) g = decisionCache st g) \<and>
   (updateCropConfig st w f = (Inr cfg, st') \<longrightarrow> decisionCache st' f = None) \<and>
   (CropConfig_findOneAndUpdate w = Resolved cfg \<longrightarrow>
      updateCropConfig st w f =
        (Inr cfg, st\<lparr>decisionCache := (decisionCache st)(f := None)\<rparr>)) \<and>
   (CropConfig_findOneAndUpdate w = Rejected \<longrightarrow>
      updateCropConfig st w f = (Inl DbFailure, st)) \<and>
   (decisionCache st f = None \<longrightarrow>
      getIntelligenceReport st w f live =
        (case composeReport st w f live of
           Inr r \<Rightarrow>
             (r\<lparr>source := Some computed\<rparr>,
              st\<lparr>decisionCache := (decisionCache st)(f \<mapsto> \<lparr>data = r, timestamp = now_store w\<rparr>)\<rparr>)
         | Inl e \<Rightarrow> (getDefaultReport f w, st)))"
proof (intro conjI impI)
  assume a: "getIntelligenceReport st w1 f None = (r1, st1) \<and> decisionCache st1 f = Some c \<and>
    now_check w2 - cacheEntry.timestamp c < CACHE_TTL_MS"
  then show "getIntelligenceReport st1 w2 f None = ((data c)\<lparr>source := Some cache\<rparr>, st1)"
    by (simp add: report_from_cache)
  from a have cases: "r1 = (data c)\<lparr>source := Some computed\<rparr> \<or>
      r1 = (data c)\<lparr>source := Some cache\<rparr> \<or>
      r1 = (data c)\<lparr>source := Some error_fallback, stale := Some True\<rparr>"
    using first_call_cases [of st w1 f r1 st1 c] by simp
  then show "r1 = (data c)\<lparr>source := Some computed\<rparr> \<or>
      r1 = (data c)\<lparr>source := Some cache\<rparr> \<or>
      r1 = (data c)\<lparr>source := Some error_fallback, stale := Some True\<rparr>" .
  from cases show "r1\<lparr>source := None, stale := None\<rparr> = (data c)\<lparr>source := None, stale := None\<rparr>"
    by auto
next
  assume "composeReport st w f (Some d) = Inr r"
  then show "getIntelligenceReport st w f (Some d) =
        (r\<lparr>source := Some computed\<rparr>,
         st\<lparr>decisionCache := (decisionCache st)(f \<mapsto> \<lparr>data = r, timestamp = now_store w\<rparr>)\<rparr>)"
    using report_on_miss [of "Some d" st f w] by simp
next
  show "source (fst (getIntelligenceReport st w f (Some d))) \<noteq> Some cache"
    by (rule report_source_override)
  show "decisionCache (ingestSensorData st f sd meta now) f = None"
    by (rule ingest_deletes)
next
  assume "g \<noteq> f"
  then show "decisionCache (ingestSensorData st f sd meta now) g = decisionCache st g"
    by (rule ingest_deletes)
next
  assume "updateCropConfig st w f = (Inr cfg, st')"
  then show "decisionCache st' f = None" by (rule update_deletes)
next
  assume "CropConfig_findOneAndUpdate w = Resolved cfg"
  then show "updateCropConfig st w f =
        (Inr cfg, st\<lparr>decisionCache := (decisionCache st)(f := None)\<rparr>)"
    by (rule update_resolved)
next
  assume "CropConfig_findOneAndUpdate w = Rejected"
  then show "updateCropConfig st w f = (Inl DbFailure, st)"
    by (rule update_rejected)
next
  assume "decisionCache st f = None"
  then show "getIntelligenceReport st w f live =
        (case composeReport st w f live of
           Inr r \<Rightarrow>
             (r\<lparr>source := Some computed\<rparr>,
              st\<lparr>decisionCache := (decisionCache st)(f \<mapsto> \<lparr>data = r, timestamp = now_store w\<rparr>)\<rparr>)
         | Inl e \<Rightarrow> (getDefaultReport f w, st))"
    using report_on_miss [of live st f w] by (simp split: sum.splits)
qed

text \<open>
  The first report of a farm is composed and stored at time 0; a call 30 seconds later is
  answered from the cache; a call with a live reading after 1 second is composed anew.
  An update that the store accepts at 5 seconds empties the cache, and the call at 6
  seconds, which the entry of time 0 would still have answered, composes a new report; an
  update the store rejects leaves the entry. An ingested reading of a dry field deletes
  the entry too, and the next report is composed from that reading.
\<close>

theorem cache_correctness_witness:
  "getIntelligenceReport empty_engine (offline_world 0) ''default_farm'' None =
     ((offline_report 0 ''default_farm'')\<lparr>source := Some computed\<rparr>,
      warm_engine ''default_farm'') \<and>
   getIntelligenceReport (warm_engine ''default_farm'') (offline_world 30000) ''default_farm'' None =
     ((offline_report 0 ''default_farm'')\<lparr>source := Some cache\<rparr>, warm_engine ''default_farm'') \<and>
   getIntelligenceReport (warm_engine ''default_farm'') (offline_world 1000) ''default_farm''
     (Some dry_reading) =
     ((dry_report 1000 ''default_farm'')\<lparr>source := Some computed\<rparr>,
      (warm_engine ''default_farm'')\<lparr>decisionCache :=
         [''default_farm'' \<mapsto> \<lparr>data = dry_report 1000 ''default_farm'', timestamp = 1000\<rparr>]\<rparr>) \<and>
   decisionCache (warm_engine ''default_farm'') ''default_farm'' =
     Some \<lparr>data = offline_report 0 ''default_farm'', timestamp = 0\<rparr> \<and>
   updateCropConfig (warm_engine ''default_farm'') (updating_world 5000) ''default_farm'' =
     (Inr (fallbackCropConfig ''default_farm''), empty_engine) \<and>
   getIntelligenceReport empty_engine (offline_world 6000) ''default_farm'' None =
     ((offline_report 6000 ''default_farm'')\<lparr>source := Some computed\<rparr>,
      empty_engine\<lparr>decisionCache :=
         [''default_farm'' \<mapsto>
            \<lparr>data = offline_report 6000 ''default_farm'', timestamp = 6000\<rparr>]\<rparr>) \<and>
   updateCropConfig (warm_engine ''default_farm'') (offline_world 5000) ''default_farm'' =
     (Inl DbFailure, warm_engine ''default_farm'') \<and>
   decisionCache
     (ingestSensorData (warm_engine ''default_farm'') ''default_farm'' dry_reading no_meta 5000)
     ''default_farm'' = None \<and>
   fst (getIntelligenceReport
     (ingestSensorData (warm_engine ''default_farm'') ''default_farm'' dry_reading no_meta 5000)
     (offline_world 6000) ''default_farm'' None) =
     (dry_report 6000 ''default_farm'')\<lparr>source := Some computed\<rparr>"
proof -
  let ?f = "''default_farm''"
  let ?c = "\<lparr>data = offline_report 0 ?f, timestamp = 0\<rparr>"
  let ?ing = "ingestSensorData (warm_engine ?f) ?f dry_reading no_meta 5000"
  note T = cache_correctness [where st = empty_engine and ?w1.0 = "offline_world 0"
      and w = "offline_world 0" and f = ?f and live = None
      and ?r1.0 = "(offline_report 0 ?f)\<lparr>source := Some computed\<rparr>"
      and ?st1.0 = "warm_engine ?f" and c = ?c and ?w2.0 = "offline_world 30000"]
  note U = cache_correctness [where st = "warm_engine ?f" and w = "offline_world 1000"
      and f = ?f and d = dry_reading and r = "dry_report 1000 ?f"]
  note A = cache_correctness [where st = "warm_engine ?f" and w = "updating_world 5000"
      and f = ?f and cfg = "fallbackCropConfig ?f"]
  note R = cache_correctness [where st = "warm_engine ?f" and w = "offline_world 5000"
      and f = ?f]
  note I = cache_correctness [where st = "warm_engine ?f" and f = ?f and sd = dry_reading
      and meta = no_meta and now = 5000]
  note N = cache_correctness [where st = ?ing and w = "offline_world 6000" and f = ?f
      and live = None]
  note E = cache_correctness [where st = empty_engine and w = "offline_world 6000" and f = ?f
      and live = None]
  have none: "decisionCache empty_engine ?f = None"
    by (simp add: empty_engine_def)
  have first: "getIntelligenceReport empty_engine (offline_world 0) ?f None =
      ((offline_report 0 ?f)\<lparr>source := Some computed\<rparr>, warm_engine ?f)"
    using T none offline_compose
    by (simp add: empty_engine_def warm_engine_def offline_world_def)
  have entry: "decisionCache (warm_engine ?f) ?f = Some ?c"
    by (simp add: warm_engine_def)
  have fresh: "now_check (offline_world 30000) - cacheEntry.timestamp ?c < CACHE_TTL_MS"
    by (simp add: offline_world_def CACHE_TTL_MS_def)
  have second: "getIntelligenceReport (warm_engine ?f) (offline_world 30000) ?f None =
      ((offline_report 0 ?f)\<lparr>source := Some cache\<rparr>, warm_engine ?f)"
    using T first entry fresh by simp
  have third: "getIntelligenceReport (warm_engine ?f) (offline_world 1000) ?f (Some dry_reading) =
     ((dry_report 1000 ?f)\<lparr>source := Some computed\<rparr>,
      (warm_engine ?f)\<lparr>decisionCache :=
         [?f \<mapsto> \<lparr>data = dry_report 1000 ?f, timestamp = 1000\<rparr>]\<rparr>)"
    using U dry_compose by (simp add: warm_engine_def offline_world_def)
  have acc: "CropConfig_findOneAndUpdate (updating_world 5000) = Resolved (fallbackCropConfig ?f)"
    by (simp add: updating_world_def offline_world_def)
  have rej: "CropConfig_findOneAndUpdate (offline_world 5000) = Rejected"
    by (simp add: offline_world_def)
  have upd: "updateCropConfig (warm_engine ?f) (updating_world 5000) ?f =
      (Inr (fallbackCropConfig ?f), empty_engine)"
    using A acc by (simp add: warm_engine_def empty_engine_def)
  have nop: "updateCropConfig (warm_engine ?f) (offline_world 5000) ?f =
      (Inl DbFailure, warm_engine ?f)"
    using R rej by simp
  have after_upd: "getIntelligenceReport empty_engine (offline_world 6000) ?f None =
     ((offline_report 6000 ?f)\<lparr>source := Some computed\<rparr>,
      empty_engine\<lparr>decisionCache :=
         [?f \<mapsto> \<lparr>data = offline_report 6000 ?f, timestamp = 6000\<rparr>]\<rparr>)"
    using E none recompose_after_update by (simp add: empty_engine_def offline_world_def)
  have gone: "decisionCache ?ing ?f = None"
    using I by simp
  have after_ing: "fst (getIntelligenceReport ?ing (offline_world 6000) ?f None) =
     (dry_report 6000 ?f)\<lparr>source := Some computed\<rparr>"
    using N gone recompose_after_ingest by simp
  from first second third entry upd after_upd nop gone after_ing show ?thesis by blast
qed

text \<open>
  C10. When a call with a live sensor override composes its report, that report is stored
  in the cache with the time of storing, and a following call without override whose
  check falls less than 60 seconds after that time returns the override's report tagged
  \<open>source = "cache"\<close>, whatever the stores would answer by then.
\<close>

theorem override_report_is_cached:
  "composeReport st w1 f (Some d) = Inr r \<and>
   getIntelligenceReport st w1 f (Some d) = (r1, st1) \<and>
   now_check w2 - now_store w1 < CACHE_TTL_MS \<longrightarrow>
     r1 = r\<lparr>source := Some computed\<rparr> \<and>
     decisionCache st1 f = Some \<lparr>data = r, timestamp = now_store w1\<rparr> \<and>
     getIntelligenceReport st1 w2 f None = (r\<lparr>source := Some cache\<rparr>, st1)"
proof
  assume a: "composeReport st w1 f (Some d) = Inr r \<and>
   getIntelligenceReport st w1 f (Some d) = (r1, st1) \<and>
   now_check w2 - now_store w1 < CACHE_TTL_MS"
  then have "getIntelligenceReport st w1 f (Some d) =
      (r\<lparr>source := Some computed\<rparr>,
       st\<lparr>decisionCache := (decisionCache st)(f \<mapsto> \<lparr>data = r, timestamp = now_store w1\<rparr>)\<rparr>)"
    using report_on_miss [of "Some d" st f w1] by simp
  with a have r1: "r1 = r\<lparr>source := Some computed\<rparr>"
    and st1: "st1 = st\<lparr>decisionCache :=
        (decisionCache st)(f \<mapsto> \<lparr>data = r, timestamp = now_store w1\<rparr>)\<rparr>"
    by simp_all
  have entry: "decisionCache st1 f = Some \<lparr>data = r, timestamp = now_store w1\<rparr>"
    unfolding st1 by simp
  have "getIntelligenceReport st1 w2 f None = (r\<lparr>source := Some cache\<rparr>, st1)"
    using report_from_cache [OF entry, of w2] a by simp
  with r1 entry show "r1 = r\<lparr>source := Some computed\<rparr> \<and>
     decisionCache st1 f = Some \<lparr>data = r, timestamp = now_store w1\<rparr> \<and>
     getIntelligenceReport st1 w2 f None = (r\<lparr>source := Some cache\<rparr>, st1)"
    by simp
qed

text \<open>
  A live reading of a dry field at time 1000 yields a START decision, although the cache
  holds a fresh DELAY report; 49 seconds later the plain call returns the START report
  from the cache.
\<close>

theorem override_report_is_cached_witness:
  "action (irrigationDecision (dry_report 1000 ''default_farm'')) = START \<and>
   getIntelligenceReport
     (snd (getIntelligenceReport (warm_engine ''default_farm'') (offline_world 1000)
        ''default_farm'' (Some dry_reading)))
     (offline_world 50000) ''default_farm'' None =
     ((dry_report 1000 ''default_farm'')\<lparr>source := Some cache\<rparr>,
      snd (getIntelligenceReport (warm_engine ''default_farm'') (offline_world 1000)
        ''default_farm'' (Some dry_reading)))"
proof -
  let ?f = "''default_farm''"
  let ?first = "getIntelligenceReport (warm_engine ?f) (offline_world 1000) ?f (Some dry_reading)"
  have t: "now_check (offline_world 50000) - now_store (offline_world 1000) < CACHE_TTL_MS"
    by (simp add: offline_world_def CACHE_TTL_MS_def)
  have s: "action (irrigationDecision (dry_report 1000 ?f)) = START"
    by (simp add: dry_report_def)
  show ?thesis
    using override_report_is_cached [of "warm_engine ?f" "offline_world 1000" ?f dry_reading
        "dry_report 1000 ?f" "fst ?first" "snd ?first" "offline_world 50000"]
      dry_compose t s
    by simp
qed

end
